theory Spec2Isabelle
  imports Complex_Main "HOL-Library.Sublist"
begin

section \<open>Python values reaching the configuration object\<close>

text \<open>
  The module \<^verbatim>\<open>cobra/core/configuration.py\<close> defines one class, \<^verbatim>\<open>Configuration\<close>.
  Its solver setter inspects its argument at run time (\<^verbatim>\<open>isinstance(value, str)\<close>,
  \<^verbatim>\<open>isinstance(value, types.ModuleType)\<close>, \<^verbatim>\<open>hasattr(value, "Model")\<close>), so an argument
  is either a string or some other object, of which the model keeps what the setter
  looks at: its identity, whether it is a module, whether it has an attribute
  \<^verbatim>\<open>Model\<close>, and the text that \<^verbatim>\<open>str\<close> gives for it (used by the f-string of the
  error message).
\<close>

datatype pyobj = PyObj (obj_id: nat) (is_module: bool) (has_Model: bool) (obj_str: string)

datatype pyvalue = Str string | Object pyobj

fun str_of :: "pyvalue \<Rightarrow> string" where
  "str_of (Str s) = s"
| "str_of (Object ob) = obj_str ob"

text \<open>
  \<^verbatim>\<open>SOLVERS\<close> is imported from \<^verbatim>\<open>cobra.util.solver\<close>: a dict from solver name to optlang
  interface. It is a parameter of the model, an association list in the dict's
  iteration order; \<^const>\<open>map_of\<close> is the lookup \<^verbatim>\<open>SOLVERS[value]\<close>.
\<close>

type_synonym registry = "(string \<times> pyobj) list"

datatype error = SolverNotFound string | AssertionError

text \<open>\<^verbatim>\<open>str(e)\<close> of an exception: the message it was built with.\<close>

fun message :: "error \<Rightarrow> string" where
  "message (SolverNotFound msg) = msg"
| "message AssertionError = []"

section \<open>The configuration object\<close>

text \<open>
  The instance attributes assigned in \<^verbatim>\<open>__init__\<close>. Numbers are reals; \<^verbatim>\<open>None\<close> is
  \<^const>\<open>None\<close>. The IEEE value NaN is outside the model.
\<close>

record configuration =
  private_solver :: "pyobj option"
  tolerance :: real
  lower_bound :: "real option"
  upper_bound :: "real option"
  processes :: "int option"

text \<open>
  A setter either returns or raises, and in both cases leaves the object in some state:
  the outcome is paired with the state of \<^verbatim>\<open>self\<close> at that moment.
\<close>

type_synonym outcome = "(error + unit) \<times> configuration"

subsection \<open>bounds\<close>

definition bounds_getter :: "configuration \<Rightarrow> real option \<times> real option" where
  "bounds_getter self = (lower_bound self, upper_bound self)"

text \<open>
  \<^verbatim>\<open>if None not in bounds: assert bounds[0] <= bounds[1]\<close>, then the two assignments.
  Assertions are taken as enabled (the interpreter does not run with \<^verbatim>\<open>-O\<close>).
\<close>

definition bounds_assertion :: "real option \<times> real option \<Rightarrow> error + unit" where
  "bounds_assertion bounds =
     (case bounds of
        (Some lo, Some hi) \<Rightarrow> if lo \<le> hi then Inr () else Inl AssertionError
      | _ \<Rightarrow> Inr ())"

definition bounds_setter :: "real option \<times> real option \<Rightarrow> configuration \<Rightarrow> outcome" where
  "bounds_setter bounds self =
     (case bounds_assertion bounds of
        Inl e \<Rightarrow> (Inl e, self)
      | Inr _ \<Rightarrow>
          (let self1 = self\<lparr>lower_bound := fst bounds\<rparr>;
               self2 = self1\<lparr>upper_bound := snd bounds\<rparr>
           in (Inr (), self2)))"

subsection \<open>solver\<close>

definition solver_getter :: "configuration \<Rightarrow> pyobj option" where
  "solver_getter self = private_solver self"

text \<open>\<^verbatim>\<open>', '.join(SOLVERS)\<close>: the keys of the dict, in its order, separated by the given string.\<close>

fun join :: "string \<Rightarrow> string list \<Rightarrow> string" where
  "join sep [] = []"
| "join sep [x] = x"
| "join sep (x # y # ys) = x @ sep @ join sep (y # ys)"

text \<open>
  The exception object built at the top of the setter, from two adjacent f-strings
  (the first ends in a blank and the second starts with one).
\<close>

definition not_valid_interface :: "registry \<Rightarrow> pyvalue \<Rightarrow> error" where
  "not_valid_interface SOLVERS v =
     SolverNotFound
       ([CHR 0x27] @ str_of v @ [CHR 0x27] @ '' is not a valid solver interface. ''
        @ '' Please pick one from '' @ join '', '' (map fst SOLVERS) @ ''.'')"

text \<open>
  The three branches of the setter, in the source's order: a string is looked up in
  the registry, a module with an attribute \<^verbatim>\<open>Model\<close> is taken as it is, anything else is
  refused. The assignment to \<^verbatim>\<open>self._solver\<close> is the last statement.
\<close>

definition solver_setter :: "registry \<Rightarrow> pyvalue \<Rightarrow> configuration \<Rightarrow> outcome" where
  "solver_setter SOLVERS v self =
     (case v of
        Str s \<Rightarrow>
          (case map_of SOLVERS s of
             None \<Rightarrow> (Inl (not_valid_interface SOLVERS v), self)
           | Some interface \<Rightarrow> (Inr (), self\<lparr>private_solver := Some interface\<rparr>))
      | Object ob \<Rightarrow>
          if is_module ob \<and> has_Model ob
          then (Inr (), self\<lparr>private_solver := Some ob\<rparr>)
          else (Inl (not_valid_interface SOLVERS v), self))"

subsection \<open>Construction\<close>

text \<open>
  \<^verbatim>\<open>_set_default_solver\<close>: the loop over the candidate names. \<^verbatim>\<open>except SolverNotFound:
  continue\<close> goes on with the next name, \<^verbatim>\<open>else: break\<close> leaves the loop, and any other
  exception would leave the method.
\<close>

fun try_solvers :: "registry \<Rightarrow> string list \<Rightarrow> configuration \<Rightarrow> outcome" where
  "try_solvers SOLVERS [] self = (Inr (), self)"
| "try_solvers SOLVERS (name # names) self =
     (case solver_setter SOLVERS (Str name) self of
        (Inl (SolverNotFound msg), self1) \<Rightarrow> try_solvers SOLVERS names self1
      | (Inl e, self1) \<Rightarrow> (Inl e, self1)
      | (Inr _, self1) \<Rightarrow> (Inr (), self1))"

definition set_default_solver :: "registry \<Rightarrow> configuration \<Rightarrow> outcome" where
  "set_default_solver SOLVERS self = try_solvers SOLVERS [''gurobi'', ''cplex'', ''glpk''] self"

text \<open>
  \<^verbatim>\<open>_set_default_processes\<close>. The result of \<^verbatim>\<open>os.cpu_count()\<close> is a parameter (an integer, or
  \<^verbatim>\<open>None\<close> when the number of cores is not known); the messages given to
  \<^verbatim>\<open>logger.warning\<close> are returned beside the new state.
\<close>

definition cores_warning :: string where
  "cores_warning = ''The number of cores could not be detected - assuming one.''"

definition set_default_processes :: "int option \<Rightarrow> configuration \<Rightarrow> configuration \<times> string list" where
  "set_default_processes cpu_count self =
     (let self1 = self\<lparr>processes := cpu_count\<rparr>;
          (self2, warnings) =
             (case processes self1 of
                None \<Rightarrow> (self1\<lparr>processes := Some 1\<rparr>, [cores_warning])
              | Some n \<Rightarrow> (self1, []));
          self3 =
             (case processes self2 of
                Some n \<Rightarrow> if n > 1 then self2\<lparr>processes := Some (n - 1)\<rparr> else self2
              | None \<Rightarrow> self2)
      in (self3, warnings))"

text \<open>
  \<^verbatim>\<open>__init__\<close>, called without keyword arguments: the five attributes, then the bounds
  setter, the default solver and the default number of processes. An exception of a
  step ends the construction.
\<close>

definition init :: "registry \<Rightarrow> int option \<Rightarrow> outcome \<times> string list" where
  "init SOLVERS cpu_count =
     (let self0 = \<lparr>private_solver = None, tolerance = 1 / 10 ^ 7,
                   lower_bound = None, upper_bound = None, processes = None\<rparr>
      in case bounds_setter (Some (- 1000), Some 1000) self0 of
           (Inl e, self1) \<Rightarrow> ((Inl e, self1), [])
         | (Inr _, self1) \<Rightarrow>
             (case set_default_solver SOLVERS self1 of
                (Inl e, self2) \<Rightarrow> ((Inl e, self2), [])
              | (Inr _, self2) \<Rightarrow>
                  (case set_default_processes cpu_count self2 of
                     (self3, warnings) \<Rightarrow> ((Inr (), self3), warnings))))"

subsection \<open>The operations on an existing object\<close>

text \<open>
  The methods and properties that the class defines. A call is recorded with what it
  takes from outside: the value assigned, or the result of \<^verbatim>\<open>cpu_count()\<close>. \<^verbatim>\<open>__repr__\<close> and
  \<^verbatim>\<open>_repr_html_\<close> read the five settings into an f-string and assign nothing, and so do the
  two getters; only the state that a call leaves behind is followed here, whether the
  call returns or raises.
\<close>

datatype call =
    Call_init "int option"
  | Call_set_default_solver
  | Call_set_default_processes "int option"
  | Get_solver
  | Set_solver pyvalue
  | Get_bounds
  | Set_bounds "real option \<times> real option"
  | Call_repr
  | Call_repr_html

fun run_call :: "registry \<Rightarrow> call \<Rightarrow> configuration \<Rightarrow> configuration" where
  "run_call SOLVERS (Call_init cpu_count) self = snd (fst (init SOLVERS cpu_count))"
| "run_call SOLVERS Call_set_default_solver self = snd (set_default_solver SOLVERS self)"
| "run_call SOLVERS (Call_set_default_processes cpu_count) self =
     fst (set_default_processes cpu_count self)"
| "run_call SOLVERS Get_solver self = self"
| "run_call SOLVERS (Set_solver v) self = snd (solver_setter SOLVERS v self)"
| "run_call SOLVERS Get_bounds self = self"
| "run_call SOLVERS (Set_bounds bounds) self = snd (bounds_setter bounds self)"
| "run_call SOLVERS Call_repr self = self"
| "run_call SOLVERS Call_repr_html self = self"

text \<open>
  \<^verbatim>\<open>tolerance\<close>, \<^verbatim>\<open>lower_bound\<close>, \<^verbatim>\<open>upper_bound\<close> and \<^verbatim>\<open>processes\<close> are plain instance attributes
  (\<^verbatim>\<open>__init__\<close> creates them by assignment, the class docstring lists them, and the class
  defines no property of these names): a caller's \<^verbatim>\<open>config.lower_bound = x\<close> stores \<open>x\<close>
  and runs no code of the class.
\<close>

datatype assignment =
    Assign_tolerance real
  | Assign_lower_bound "real option"
  | Assign_upper_bound "real option"
  | Assign_processes "int option"

fun assign :: "assignment \<Rightarrow> configuration \<Rightarrow> configuration" where
  "assign (Assign_tolerance x) self = self\<lparr>tolerance := x\<rparr>"
| "assign (Assign_lower_bound x) self = self\<lparr>lower_bound := x\<rparr>"
| "assign (Assign_upper_bound x) self = self\<lparr>upper_bound := x\<rparr>"
| "assign (Assign_processes x) self = self\<lparr>processes := x\<rparr>"

datatype operation = Method call | Attribute assignment

fun run_operation :: "registry \<Rightarrow> operation \<Rightarrow> configuration \<Rightarrow> configuration" where
  "run_operation SOLVERS (Method c) self = run_call SOLVERS c self"
| "run_operation SOLVERS (Attribute a) self = assign a self"

text \<open>The invariant on the two bounds: when neither is \<^verbatim>\<open>None\<close>, the lower is at most the upper.\<close>

definition bounds_ordered :: "configuration \<Rightarrow> bool" where
  "bounds_ordered self =
     (case (lower_bound self, upper_bound self) of
        (Some lo, Some hi) \<Rightarrow> lo \<le> hi
      | _ \<Rightarrow> True)"

subsection \<open>The singleton\<close>

text \<open>
  The class statement names the metaclass \<^verbatim>\<open>Singleton\<close> of \<^verbatim>\<open>cobra.core.singleton\<close>, which
  is not among the sources. A process has the configuration objects allocated so far
  (a reference is an index into that list), the reference that the metaclass has
  cached for the class, and the messages logged.
\<close>

record process =
  heap :: "configuration list"
  instance_cache :: "nat option"
  logged :: "string list"

text \<open>
  Modelled from the spec: the call \<^verbatim>\<open>Configuration()\<close> as the metaclass \<^verbatim>\<open>Singleton\<close> (missing
  from the sources) handles it. The specification says that the singleton lifecycle
  manager ensures that only one \<^verbatim>\<open>Configuration\<close> instance exists per process, that the
  first access creates and caches the singleton, and that \<^verbatim>\<open>Configuration()\<close> returns the
  existing instance if already constructed. So the call returns the cached reference
  when there is one; otherwise it runs \<^verbatim>\<open>__init__\<close> on a new object and caches the reference
  to it. An exception of \<^verbatim>\<open>__init__\<close> leaves the cache empty.
\<close>

definition Configuration_call :: "registry \<Rightarrow> int option \<Rightarrow> process \<Rightarrow> (error + nat) \<times> process" where
  "Configuration_call SOLVERS cpu_count p =
     (case instance_cache p of
        Some ref \<Rightarrow> (Inr ref, p)
      | None \<Rightarrow>
          (case init SOLVERS cpu_count of
             ((Inl e, self), warnings) \<Rightarrow> (Inl e, p\<lparr>logged := logged p @ warnings\<rparr>)
           | ((Inr _, self), warnings) \<Rightarrow>
               (Inr (length (heap p)),
                p\<lparr>heap := heap p @ [self],
                  instance_cache := Some (length (heap p)),
                  logged := logged p @ warnings\<rparr>)))"

text \<open>Reading and using an object through a reference to it.\<close>

definition deref :: "process \<Rightarrow> nat \<Rightarrow> configuration" where
  "deref p ref = heap p ! ref"

definition run_via :: "registry \<Rightarrow> nat \<Rightarrow> operation \<Rightarrow> process \<Rightarrow> process" where
  "run_via SOLVERS ref opn p =
     (if ref < length (heap p)
      then p\<lparr>heap := (heap p)[ref := run_operation SOLVERS opn (heap p ! ref)]\<rparr>
      else p)"

fun run_all_via :: "registry \<Rightarrow> (nat \<times> operation) list \<Rightarrow> process \<Rightarrow> process" where
  "run_all_via SOLVERS [] p = p"
| "run_all_via SOLVERS ((ref, opn) # rest) p = run_all_via SOLVERS rest (run_via SOLVERS ref opn p)"

text \<open>A cached reference points to an allocated object.\<close>

definition cache_valid :: "process \<Rightarrow> bool" where
  "cache_valid p = (case instance_cache p of None \<Rightarrow> True | Some ref \<Rightarrow> ref < length (heap p))"

definition new_process :: process where
  "new_process = \<lparr>heap = [], instance_cache = None, logged = []\<rparr>"

section \<open>Properties of the bounds setter\<close>

lemma bounds_assertion_ok:
  "\<forall>a b. lo = Some a \<longrightarrow> hi = Some b \<longrightarrow> a \<le> b \<Longrightarrow> bounds_assertion (lo, hi) = Inr ()"
  by (cases lo; cases hi) (auto simp: bounds_assertion_def)

lemma bounds_assertion_fails:
  "hi < lo \<Longrightarrow> bounds_assertion (Some lo, Some hi) = Inl AssertionError"
  by (simp add: bounds_assertion_def)

text \<open>
  C1. For every pair \<open>(lo, hi)\<close> of optional numbers with \<open>lo \<le> hi\<close>, or with one of
  them \<^verbatim>\<open>None\<close>, the assignment \<^verbatim>\<open>bounds = (lo, hi)\<close> returns normally, and afterwards the
  \<^verbatim>\<open>bounds\<close> getter gives exactly \<open>(lo, hi)\<close>, \<^verbatim>\<open>lower_bound\<close> is \<open>lo\<close> and \<^verbatim>\<open>upper_bound\<close>
  is \<open>hi\<close>.
\<close>

theorem bounds_setter_roundtrip:
  assumes "\<forall>a b. lo = Some a \<longrightarrow> hi = Some b \<longrightarrow> a \<le> b"
  shows "fst (bounds_setter (lo, hi) self) = Inr ()
       \<and> bounds_getter (snd (bounds_setter (lo, hi) self)) = (lo, hi)
       \<and> lower_bound (snd (bounds_setter (lo, hi) self)) = lo
       \<and> upper_bound (snd (bounds_setter (lo, hi) self)) = hi"
  using bounds_assertion_ok [OF assms]
  by (simp add: bounds_setter_def bounds_getter_def)

theorem bounds_setter_roundtrip_witness:
  "fst (bounds_setter (Some (- 10), Some 20) \<lparr>private_solver = None, tolerance = 1 / 10 ^ 7,
         lower_bound = Some 5, upper_bound = None, processes = Some 3\<rparr>) = Inr ()
   \<and> bounds_getter (snd (bounds_setter (Some (- 10), Some 20) \<lparr>private_solver = None,
         tolerance = 1 / 10 ^ 7, lower_bound = Some 5, upper_bound = None,
         processes = Some 3\<rparr>)) = (Some (- 10), Some 20)
   \<and> fst (bounds_setter (None, Some (- 4)) \<lparr>private_solver = None, tolerance = 1 / 10 ^ 7,
         lower_bound = Some 5, upper_bound = None, processes = Some 3\<rparr>) = Inr ()
   \<and> upper_bound (snd (bounds_setter (None, Some (- 4)) \<lparr>private_solver = None,
         tolerance = 1 / 10 ^ 7, lower_bound = Some 5, upper_bound = None,
         processes = Some 3\<rparr>)) = Some (- 4)"
  using bounds_setter_roundtrip [of "Some (- 10)" "Some 20"]
    bounds_setter_roundtrip [of None "Some (- 4)"]
  by simp

text \<open>
  C2. For every pair \<open>(lo, hi)\<close> of numbers (neither of them \<^verbatim>\<open>None\<close>) with \<open>lo > hi\<close>, the
  assignment \<^verbatim>\<open>bounds = (lo, hi)\<close> raises \<^verbatim>\<open>AssertionError\<close>, and the object is as it was
  before: the assertion comes before the two assignments, so \<^verbatim>\<open>lower_bound\<close> and
  \<^verbatim>\<open>upper_bound\<close> (and every other attribute) keep their values.
\<close>

theorem bounds_setter_rejects:
  assumes "hi < lo"
  shows "fst (bounds_setter (Some lo, Some hi) self) = Inl AssertionError
       \<and> snd (bounds_setter (Some lo, Some hi) self) = self
       \<and> lower_bound (snd (bounds_setter (Some lo, Some hi) self)) = lower_bound self
       \<and> upper_bound (snd (bounds_setter (Some lo, Some hi) self)) = upper_bound self"
  using bounds_assertion_fails [OF assms]
  by (simp add: bounds_setter_def)

theorem bounds_setter_rejects_witness:
  "bounds_setter (Some 1000, Some (- 1000)) \<lparr>private_solver = None, tolerance = 1 / 10 ^ 7,
       lower_bound = Some 5, upper_bound = None, processes = Some 3\<rparr>
   = (Inl AssertionError, \<lparr>private_solver = None, tolerance = 1 / 10 ^ 7,
       lower_bound = Some 5, upper_bound = None, processes = Some 3\<rparr>)"
  using bounds_setter_rejects [of "- 1000" 1000 "\<lparr>private_solver = None,
       tolerance = 1 / 10 ^ 7, lower_bound = Some 5, upper_bound = None, processes = Some 3\<rparr>"]
  by (simp add: prod_eq_iff)

section \<open>Properties of the solver setter\<close>

lemma map_of_key: "n \<in> fst ` set SOLVERS \<longleftrightarrow> map_of SOLVERS n \<noteq> None"
  by (simp add: map_of_eq_None_iff)

lemma sublist_join:
  "k \<in> set ks \<Longrightarrow> sublist k (join sep ks)"
proof (induction sep ks rule: join.induct)
  case (1 sep)
  then show ?case by simp
next
  case (2 sep x)
  then show ?case by simp
next
  case (3 sep x y ys)
  show ?case
  proof (cases "k = x")
    case True
    then show ?thesis by simp
  next
    case False
    with 3 have "sublist k (join sep (y # ys))" by simp
    then obtain ps ss where "join sep (y # ys) = ps @ k @ ss"
      by (auto simp: sublist_def)
    then have "join sep (x # y # ys) = (x @ sep @ ps) @ k @ ss" by simp
    then show ?thesis unfolding sublist_def by blast
  qed
qed

lemma message_lists_keys:
  "sublist (join '', '' (map fst SOLVERS)) (message (not_valid_interface SOLVERS v))"
proof -
  have "message (not_valid_interface SOLVERS v) =
      ([CHR 0x27] @ str_of v @ [CHR 0x27] @ '' is not a valid solver interface. ''
        @ '' Please pick one from '') @ join '', '' (map fst SOLVERS) @ ''.''"
    by (simp add: not_valid_interface_def)
  then show ?thesis unfolding sublist_def by blast
qed

lemma message_names_value:
  "sublist (str_of v) (message (not_valid_interface SOLVERS v))"
proof -
  have "message (not_valid_interface SOLVERS v) =
      [CHR 0x27] @ str_of v @ ([CHR 0x27] @ '' is not a valid solver interface. ''
        @ '' Please pick one from '' @ join '', '' (map fst SOLVERS) @ ''.'')"
    by (simp add: not_valid_interface_def)
  then show ?thesis unfolding sublist_def by blast
qed

lemma solver_setter_failure_state:
  "fst (solver_setter SOLVERS v self) = Inl e \<Longrightarrow>
     snd (solver_setter SOLVERS v self) = self \<and> e = not_valid_interface SOLVERS v"
  by (auto simp: solver_setter_def split: pyvalue.splits option.splits if_splits)

text \<open>
  C3. For every string \<open>n\<close> that is a key of the solver registry, the assignment
  \<^verbatim>\<open>solver = n\<close> returns normally, and the \<^verbatim>\<open>solver\<close> getter then returns the interface that
  the registry maps \<open>n\<close> to.
\<close>

theorem solver_setter_registered_name:
  assumes "n \<in> fst ` set SOLVERS"
  shows "fst (solver_setter SOLVERS (Str n) self) = Inr ()
       \<and> map_of SOLVERS n \<noteq> None
       \<and> solver_getter (snd (solver_setter SOLVERS (Str n) self)) = map_of SOLVERS n"
proof -
  from assms obtain interface where "map_of SOLVERS n = Some interface"
    by (auto simp: map_of_key)
  then show ?thesis
    by (simp add: solver_setter_def solver_getter_def)
qed

theorem solver_setter_registered_name_witness:
  "fst (solver_setter [(''glpk'', PyObj 1 True True ''glpk_interface''),
                       (''glpk_exact'', PyObj 2 True True ''glpk_exact_interface'')]
         (Str ''glpk_exact'')
         \<lparr>private_solver = None, tolerance = 1 / 10 ^ 7, lower_bound = Some (- 1000),
          upper_bound = Some 1000, processes = Some 3\<rparr>) = Inr ()
   \<and> solver_getter (snd (solver_setter [(''glpk'', PyObj 1 True True ''glpk_interface''),
                       (''glpk_exact'', PyObj 2 True True ''glpk_exact_interface'')]
         (Str ''glpk_exact'')
         \<lparr>private_solver = None, tolerance = 1 / 10 ^ 7, lower_bound = Some (- 1000),
          upper_bound = Some 1000, processes = Some 3\<rparr>))
     = Some (PyObj 2 True True ''glpk_exact_interface'')"
  using solver_setter_registered_name [of "''glpk_exact''"
      "[(''glpk'', PyObj 1 True True ''glpk_interface''),
        (''glpk_exact'', PyObj 2 True True ''glpk_exact_interface'')]"
      "\<lparr>private_solver = None, tolerance = 1 / 10 ^ 7, lower_bound = Some (- 1000),
          upper_bound = Some 1000, processes = Some 3\<rparr>"]
  by simp

text \<open>
  C4. For every string \<open>n\<close> that is not a key of the solver registry, the assignment
  \<^verbatim>\<open>solver = n\<close> raises \<^verbatim>\<open>SolverNotFound\<close>; the message of the exception contains the
  comma-separated list of all registry names, hence every registry name, and it
  contains the string \<open>n\<close> itself.
\<close>

theorem solver_setter_unknown_name:
  assumes "n \<notin> fst ` set SOLVERS"
  shows "\<exists>msg. fst (solver_setter SOLVERS (Str n) self) = Inl (SolverNotFound msg)
           \<and> sublist (join '', '' (map fst SOLVERS)) msg
           \<and> (\<forall>k \<in> fst ` set SOLVERS. sublist k msg)
           \<and> sublist n msg"
proof -
  let ?e = "not_valid_interface SOLVERS (Str n)"
  from assms have none: "map_of SOLVERS n = None"
    by (simp add: map_of_key)
  then have raised: "fst (solver_setter SOLVERS (Str n) self) = Inl (SolverNotFound (message ?e))"
    by (simp add: solver_setter_def not_valid_interface_def)
  have listed: "sublist (join '', '' (map fst SOLVERS)) (message ?e)"
    by (rule message_lists_keys)
  have each: "\<forall>k \<in> fst ` set SOLVERS. sublist k (message ?e)"
  proof
    fix k assume "k \<in> fst ` set SOLVERS"
    then have "k \<in> set (map fst SOLVERS)" by simp
    then have "sublist k (join '', '' (map fst SOLVERS))" by (rule sublist_join)
    then show "sublist k (message ?e)"
      using listed sublist_order.order_trans by blast
  qed
  have "sublist n (message ?e)"
    using message_names_value [of "Str n" SOLVERS] by simp
  with raised listed each show ?thesis by blast
qed

theorem solver_setter_unknown_name_witness:
  "fst (solver_setter [(''glpk'', PyObj 1 True True ''glpk_interface''),
                       (''glpk_exact'', PyObj 2 True True ''glpk_exact_interface'')]
         (Str ''cplex'')
         \<lparr>private_solver = None, tolerance = 1 / 10 ^ 7, lower_bound = Some (- 1000),
          upper_bound = Some 1000, processes = Some 3\<rparr>)
   = Inl (SolverNotFound (CHR 0x27 # ''cplex'' @ CHR 0x27 #
       '' is not a valid solver interface.  Please pick one from glpk, glpk_exact.''))"
  using solver_setter_unknown_name [of "''cplex''"
      "[(''glpk'', PyObj 1 True True ''glpk_interface''),
        (''glpk_exact'', PyObj 2 True True ''glpk_exact_interface'')]"
      "\<lparr>private_solver = None, tolerance = 1 / 10 ^ 7, lower_bound = Some (- 1000),
          upper_bound = Some 1000, processes = Some 3\<rparr>"]
  by (simp add: solver_setter_def not_valid_interface_def)

text \<open>
  C5, as the code has it. The setter accepts exactly two kinds of input: a string that
  is a key of the solver registry, or an object that is a module
  (\<^verbatim>\<open>isinstance(value, types.ModuleType)\<close>) and has an attribute \<^verbatim>\<open>Model\<close>; such a module is
  stored as it is. Every other input raises \<^verbatim>\<open>SolverNotFound\<close> and stores nothing.
\<close>

theorem solver_setter_accepts_iff:
  "(fst (solver_setter SOLVERS v self) = Inr () \<longleftrightarrow>
      (\<exists>n. v = Str n \<and> n \<in> fst ` set SOLVERS)
      \<or> (\<exists>ob. v = Object ob \<and> is_module ob \<and> has_Model ob))
   \<and> (is_module ob \<and> has_Model ob \<longrightarrow>
        fst (solver_setter SOLVERS (Object ob) self) = Inr ()
        \<and> solver_getter (snd (solver_setter SOLVERS (Object ob) self)) = Some ob)
   \<and> (fst (solver_setter SOLVERS v self) \<noteq> Inr () \<longrightarrow>
        solver_setter SOLVERS v self = (Inl (not_valid_interface SOLVERS v), self))"
proof (intro conjI)
  show "fst (solver_setter SOLVERS v self) = Inr () \<longleftrightarrow>
      (\<exists>n. v = Str n \<and> n \<in> fst ` set SOLVERS)
      \<or> (\<exists>ob. v = Object ob \<and> is_module ob \<and> has_Model ob)"
  proof (cases v)
    case (Str n)
    then show ?thesis
      by (cases "map_of SOLVERS n") (simp_all add: solver_setter_def map_of_key)
  next
    case (Object ob')
    then show ?thesis by (simp add: solver_setter_def)
  qed
next
  show "is_module ob \<and> has_Model ob \<longrightarrow>
        fst (solver_setter SOLVERS (Object ob) self) = Inr ()
        \<and> solver_getter (snd (solver_setter SOLVERS (Object ob) self)) = Some ob"
    by (simp add: solver_setter_def solver_getter_def)
next
  show "fst (solver_setter SOLVERS v self) \<noteq> Inr () \<longrightarrow>
        solver_setter SOLVERS v self = (Inl (not_valid_interface SOLVERS v), self)"
    by (auto simp: solver_setter_def split: pyvalue.splits option.splits)
qed

theorem solver_setter_accepts_iff_witness:
  "fst (solver_setter [(''glpk'', PyObj 1 True True ''glpk_interface'')]
         (Object (PyObj 7 True True ''my_interface''))
         \<lparr>private_solver = None, tolerance = 1 / 10 ^ 7, lower_bound = Some (- 1000),
          upper_bound = Some 1000, processes = Some 3\<rparr>) = Inr ()
   \<and> solver_getter (snd (solver_setter [(''glpk'', PyObj 1 True True ''glpk_interface'')]
         (Object (PyObj 7 True True ''my_interface''))
         \<lparr>private_solver = None, tolerance = 1 / 10 ^ 7, lower_bound = Some (- 1000),
          upper_bound = Some 1000, processes = Some 3\<rparr>))
     = Some (PyObj 7 True True ''my_interface'')
   \<and> solver_setter [(''glpk'', PyObj 1 True True ''glpk_interface'')]
         (Object (PyObj 8 True False ''textwrap''))
         \<lparr>private_solver = None, tolerance = 1 / 10 ^ 7, lower_bound = Some (- 1000),
          upper_bound = Some 1000, processes = Some 3\<rparr>
     = (Inl (not_valid_interface [(''glpk'', PyObj 1 True True ''glpk_interface'')]
              (Object (PyObj 8 True False ''textwrap''))),
        \<lparr>private_solver = None, tolerance = 1 / 10 ^ 7, lower_bound = Some (- 1000),
          upper_bound = Some 1000, processes = Some 3\<rparr>)"
  using solver_setter_accepts_iff [of "[(''glpk'', PyObj 1 True True ''glpk_interface'')]"
      "Object (PyObj 7 True True ''my_interface'')"
      "\<lparr>private_solver = None, tolerance = 1 / 10 ^ 7, lower_bound = Some (- 1000),
          upper_bound = Some 1000, processes = Some 3\<rparr>"
      "PyObj 7 True True ''my_interface''"]
    solver_setter_accepts_iff [of "[(''glpk'', PyObj 1 True True ''glpk_interface'')]"
      "Object (PyObj 8 True False ''textwrap'')"
      "\<lparr>private_solver = None, tolerance = 1 / 10 ^ 7, lower_bound = Some (- 1000),
          upper_bound = Some 1000, processes = Some 3\<rparr>"
      "PyObj 8 True False ''textwrap''"]
  by simp

text \<open>
  C5 as the specification words it promises more: that every object with an
  attribute \<^verbatim>\<open>Model\<close> is accepted. An object that has the attribute but is not a
  module (an instance of a class that defines \<^verbatim>\<open>Model\<close>, say) fails the
  \<^verbatim>\<open>isinstance(value, types.ModuleType)\<close> test and is refused.
\<close>

theorem solver_setter_model_attribute_counterexample:
  "has_Model (PyObj 9 False True ''fake'')
   \<and> solver_setter [(''glpk'', PyObj 1 True True ''glpk_interface'')]
         (Object (PyObj 9 False True ''fake''))
         \<lparr>private_solver = None, tolerance = 1 / 10 ^ 7, lower_bound = Some (- 1000),
          upper_bound = Some 1000, processes = Some 3\<rparr>
     = (Inl (SolverNotFound (CHR 0x27 # ''fake'' @ CHR 0x27 #
               '' is not a valid solver interface.  Please pick one from glpk.'')),
        \<lparr>private_solver = None, tolerance = 1 / 10 ^ 7, lower_bound = Some (- 1000),
          upper_bound = Some 1000, processes = Some 3\<rparr>)"
  by (simp add: solver_setter_def not_valid_interface_def)

text \<open>
  C10. Whenever the solver setter raises (for an unregistered string or for an object
  it does not accept), the exception is the \<^verbatim>\<open>SolverNotFound\<close> built at the top of the
  setter and the whole object is unchanged: the stored solver, \<^verbatim>\<open>tolerance\<close>,
  \<^verbatim>\<open>lower_bound\<close>, \<^verbatim>\<open>upper_bound\<close> and \<^verbatim>\<open>processes\<close> are what they were, since the only
  assignment comes after both \<^verbatim>\<open>raise\<close> statements.
\<close>

theorem solver_setter_failure_atomic:
  assumes "fst (solver_setter SOLVERS v self) = Inl e"
  shows "e = not_valid_interface SOLVERS v
       \<and> snd (solver_setter SOLVERS v self) = self
       \<and> solver_getter (snd (solver_setter SOLVERS v self)) = solver_getter self
       \<and> tolerance (snd (solver_setter SOLVERS v self)) = tolerance self
       \<and> lower_bound (snd (solver_setter SOLVERS v self)) = lower_bound self
       \<and> upper_bound (snd (solver_setter SOLVERS v self)) = upper_bound self
       \<and> processes (snd (solver_setter SOLVERS v self)) = processes self"
  using solver_setter_failure_state [OF assms] by simp

theorem solver_setter_failure_atomic_witness:
  "fst (solver_setter [(''glpk'', PyObj 1 True True ''glpk_interface'')] (Str ''gurobi'')
         \<lparr>private_solver = Some (PyObj 1 True True ''glpk_interface''),
          tolerance = 1 / 10 ^ 7, lower_bound = Some (- 1000),
          upper_bound = Some 1000, processes = Some 3\<rparr>)
     = Inl (not_valid_interface [(''glpk'', PyObj 1 True True ''glpk_interface'')]
              (Str ''gurobi''))
   \<and> snd (solver_setter [(''glpk'', PyObj 1 True True ''glpk_interface'')] (Str ''gurobi'')
         \<lparr>private_solver = Some (PyObj 1 True True ''glpk_interface''),
          tolerance = 1 / 10 ^ 7, lower_bound = Some (- 1000),
          upper_bound = Some 1000, processes = Some 3\<rparr>)
     = \<lparr>private_solver = Some (PyObj 1 True True ''glpk_interface''),
          tolerance = 1 / 10 ^ 7, lower_bound = Some (- 1000),
          upper_bound = Some 1000, processes = Some 3\<rparr>"
proof -
  have raised: "fst (solver_setter [(''glpk'', PyObj 1 True True ''glpk_interface'')] (Str ''gurobi'')
         \<lparr>private_solver = Some (PyObj 1 True True ''glpk_interface''),
          tolerance = 1 / 10 ^ 7, lower_bound = Some (- 1000),
          upper_bound = Some 1000, processes = Some 3\<rparr>)
     = Inl (not_valid_interface [(''glpk'', PyObj 1 True True ''glpk_interface'')]
              (Str ''gurobi''))"
    by (simp add: solver_setter_def)
  from solver_setter_failure_atomic [OF raised] raised show ?thesis by simp
qed

section \<open>Properties of construction\<close>

lemma try_solvers_first:
  "try_solvers SOLVERS names self =
     (case find (\<lambda>n. n \<in> fst ` set SOLVERS) names of
        None \<Rightarrow> (Inr (), self)
      | Some n \<Rightarrow> solver_setter SOLVERS (Str n) self)"
proof (induction names)
  case Nil
  show ?case by simp
next
  case (Cons name names)
  show ?case
  proof (cases "map_of SOLVERS name")
    case None
    then have "name \<notin> fst ` set SOLVERS" by (simp add: map_of_key)
    moreover from None have "solver_setter SOLVERS (Str name) self
        = (Inl (not_valid_interface SOLVERS (Str name)), self)"
      by (simp add: solver_setter_def)
    ultimately show ?thesis using Cons.IH
      by (simp add: not_valid_interface_def)
  next
    case (Some interface)
    then have "name \<in> fst ` set SOLVERS" by (simp add: map_of_key)
    moreover from Some have "solver_setter SOLVERS (Str name) self
        = (Inr (), self\<lparr>private_solver := Some interface\<rparr>)"
      by (simp add: solver_setter_def)
    ultimately show ?thesis by simp
  qed
qed

lemma try_solvers_outcome:
  "try_solvers SOLVERS names self =
     (Inr (), case find (\<lambda>n. n \<in> fst ` set SOLVERS) names of
                None \<Rightarrow> self
              | Some n \<Rightarrow> self\<lparr>private_solver := map_of SOLVERS n\<rparr>)"
proof (cases "find (\<lambda>n. n \<in> fst ` set SOLVERS) names")
  case None
  then show ?thesis by (simp add: try_solvers_first)
next
  case (Some n)
  then have "n \<in> fst ` set SOLVERS" by (auto simp: find_Some_iff)
  then obtain interface where "map_of SOLVERS n = Some interface"
    by (auto simp: map_of_key)
  with Some show ?thesis by (simp add: try_solvers_first solver_setter_def)
qed

lemma set_default_processes_result:
  "set_default_processes cpu_count self =
     (self\<lparr>processes := (case cpu_count of
                            None \<Rightarrow> Some 1
                          | Some n \<Rightarrow> if n > 1 then Some (n - 1) else Some n)\<rparr>,
      case cpu_count of None \<Rightarrow> [cores_warning] | Some n \<Rightarrow> [])"
  by (cases cpu_count) (simp_all add: set_default_processes_def)

lemma init_result:
  "init SOLVERS cpu_count =
     ((Inr (),
       \<lparr>private_solver = (case find (\<lambda>n. n \<in> fst ` set SOLVERS) [''gurobi'', ''cplex'', ''glpk''] of
                            None \<Rightarrow> None
                          | Some n \<Rightarrow> map_of SOLVERS n),
        tolerance = 1 / 10 ^ 7,
        lower_bound = Some (- 1000),
        upper_bound = Some 1000,
        processes = (case cpu_count of
                       None \<Rightarrow> Some 1
                     | Some n \<Rightarrow> if n > 1 then Some (n - 1) else Some n)\<rparr>),
      case cpu_count of None \<Rightarrow> [cores_warning] | Some n \<Rightarrow> [])"
proof -
  let ?self0 = "\<lparr>private_solver = None, tolerance = 1 / 10 ^ 7,
                 lower_bound = None, upper_bound = None, processes = None\<rparr>"
  let ?self1 = "?self0\<lparr>lower_bound := Some (- 1000), upper_bound := Some 1000\<rparr>"
  have b: "bounds_setter (Some (- 1000), Some 1000) ?self0 = (Inr (), ?self1)"
    by (simp add: bounds_setter_def bounds_assertion_def)
  show ?thesis
    unfolding init_def Let_def b set_default_solver_def try_solvers_outcome
      set_default_processes_result
    by (simp split: option.splits)
qed

lemma find_after_misses:
  "\<forall>p \<in> set pre. \<not> P p \<Longrightarrow> P n \<Longrightarrow> find P (pre @ n # post) = Some n"
  by (induction pre) simp_all

text \<open>
  C6. Default construction returns normally and gives \<^verbatim>\<open>tolerance == 1e-07\<close> and
  \<^verbatim>\<open>bounds == (-1000.0, 1000.0)\<close>. With \<open>N\<close> the result of \<^verbatim>\<open>cpu_count()\<close>: if \<open>N > 1\<close> then
  \<^verbatim>\<open>processes == N - 1\<close>; if \<open>N = 1\<close>, or if the count is not known (\<^verbatim>\<open>None\<close>), then
  \<^verbatim>\<open>processes == 1\<close>. The warning is logged exactly when the count is not known. As
  \<^verbatim>\<open>cpu_count()\<close> gives \<^verbatim>\<open>None\<close> or a positive number, \<^verbatim>\<open>processes >= 1\<close> in every case.
\<close>

theorem init_defaults:
  assumes "init SOLVERS cpu_count = ((r, self), warnings)"
  shows "r = Inr ()
       \<and> tolerance self = 1 / 10 ^ 7
       \<and> bounds_getter self = (Some (- 1000), Some 1000)
       \<and> (\<forall>N. cpu_count = Some N \<and> N > 1 \<longrightarrow> processes self = Some (N - 1) \<and> warnings = [])
       \<and> (cpu_count = Some 1 \<longrightarrow> processes self = Some 1 \<and> warnings = [])
       \<and> (cpu_count = None \<longrightarrow> processes self = Some 1 \<and> warnings = [cores_warning])
       \<and> (warnings \<noteq> [] \<longleftrightarrow> cpu_count = None)
       \<and> ((\<forall>N. cpu_count = Some N \<longrightarrow> 1 \<le> N) \<longrightarrow> (\<exists>p. processes self = Some p \<and> 1 \<le> p))"
proof -
  from assms have r: "r = Inr ()"
    and t: "tolerance self = 1 / 10 ^ 7"
    and lb: "lower_bound self = Some (- 1000)"
    and ub: "upper_bound self = Some 1000"
    and p: "processes self = (case cpu_count of
                       None \<Rightarrow> Some 1
                     | Some n \<Rightarrow> if n > 1 then Some (n - 1) else Some n)"
    and w: "warnings = (case cpu_count of None \<Rightarrow> [cores_warning] | Some n \<Rightarrow> [])"
    unfolding init_result by auto
  have "bounds_getter self = (Some (- 1000), Some 1000)"
    using lb ub by (simp add: bounds_getter_def)
  moreover have "\<forall>N. cpu_count = Some N \<and> N > 1 \<longrightarrow> processes self = Some (N - 1) \<and> warnings = []"
    using p w by simp
  moreover have "cpu_count = Some 1 \<longrightarrow> processes self = Some 1 \<and> warnings = []"
    using p w by simp
  moreover have "cpu_count = None \<longrightarrow> processes self = Some 1 \<and> warnings = [cores_warning]"
    using p w by simp
  moreover have "warnings \<noteq> [] \<longleftrightarrow> cpu_count = None"
    using w by (cases cpu_count) simp_all
  moreover have "(\<forall>N. cpu_count = Some N \<longrightarrow> 1 \<le> N) \<longrightarrow> (\<exists>p. processes self = Some p \<and> 1 \<le> p)"
    using p by (cases cpu_count) auto
  ultimately show ?thesis using r t by blast
qed

theorem init_defaults_witness:
  "fst (fst (init [(''glpk'', PyObj 1 True True ''glpk_interface'')] (Some 8))) = Inr ()
   \<and> tolerance (snd (fst (init [(''glpk'', PyObj 1 True True ''glpk_interface'')] (Some 8))))
       = 1 / 10 ^ 7
   \<and> bounds_getter (snd (fst (init [(''glpk'', PyObj 1 True True ''glpk_interface'')] (Some 8))))
       = (Some (- 1000), Some 1000)
   \<and> processes (snd (fst (init [(''glpk'', PyObj 1 True True ''glpk_interface'')] (Some 8))))
       = Some 7
   \<and> snd (init [(''glpk'', PyObj 1 True True ''glpk_interface'')] (Some 8)) = []
   \<and> processes (snd (fst (init [(''glpk'', PyObj 1 True True ''glpk_interface'')] None)))
       = Some 1
   \<and> snd (init [(''glpk'', PyObj 1 True True ''glpk_interface'')] None) = [cores_warning]"
  using init_defaults [of "[(''glpk'', PyObj 1 True True ''glpk_interface'')]" "Some 8"
      "fst (fst (init [(''glpk'', PyObj 1 True True ''glpk_interface'')] (Some 8)))"
      "snd (fst (init [(''glpk'', PyObj 1 True True ''glpk_interface'')] (Some 8)))"
      "snd (init [(''glpk'', PyObj 1 True True ''glpk_interface'')] (Some 8))"]
    init_defaults [of "[(''glpk'', PyObj 1 True True ''glpk_interface'')]" None
      "fst (fst (init [(''glpk'', PyObj 1 True True ''glpk_interface'')] None))"
      "snd (fst (init [(''glpk'', PyObj 1 True True ''glpk_interface'')] None))"
      "snd (init [(''glpk'', PyObj 1 True True ''glpk_interface'')] None)"]
  by simp

text \<open>
  C7. The default solver is chosen from \<^verbatim>\<open>"gurobi"\<close>, \<^verbatim>\<open>"cplex"\<close>, \<^verbatim>\<open>"glpk"\<close> in that order.
  The whole effect of \<^verbatim>\<open>_set_default_solver\<close> is that of one assignment \<^verbatim>\<open>solver = n\<close> for the
  first candidate \<open>n\<close> that is a key of the registry, and no effect if none is: later
  candidates play no part (for any list of candidates, what follows the first
  registered one does not matter), a candidate that is not registered only makes the
  loop go on, and the method never raises. Construction never raises either, and the
  solver it stores is the registry's entry for the first registered candidate, or
  \<^verbatim>\<open>None\<close> when none of the three is registered.
\<close>

theorem default_solver_priority:
  "set_default_solver SOLVERS self =
     (case find (\<lambda>n. n \<in> fst ` set SOLVERS) [''gurobi'', ''cplex'', ''glpk''] of
        None \<Rightarrow> (Inr (), self)
      | Some n \<Rightarrow> solver_setter SOLVERS (Str n) self)
   \<and> fst (set_default_solver SOLVERS self) = Inr ()
   \<and> ((\<forall>p \<in> set pre. p \<notin> fst ` set SOLVERS) \<and> n \<in> fst ` set SOLVERS \<longrightarrow>
        try_solvers SOLVERS (pre @ n # post) self = solver_setter SOLVERS (Str n) self)
   \<and> ((\<forall>p \<in> set names. p \<notin> fst ` set SOLVERS) \<longrightarrow>
        try_solvers SOLVERS names self = (Inr (), self))
   \<and> fst (fst (init SOLVERS cpu_count)) = Inr ()
   \<and> solver_getter (snd (fst (init SOLVERS cpu_count))) =
       (if ''gurobi'' \<in> fst ` set SOLVERS then map_of SOLVERS ''gurobi''
        else if ''cplex'' \<in> fst ` set SOLVERS then map_of SOLVERS ''cplex''
        else if ''glpk'' \<in> fst ` set SOLVERS then map_of SOLVERS ''glpk''
        else None)"
proof (intro conjI)
  show "set_default_solver SOLVERS self =
     (case find (\<lambda>n. n \<in> fst ` set SOLVERS) [''gurobi'', ''cplex'', ''glpk''] of
        None \<Rightarrow> (Inr (), self)
      | Some n \<Rightarrow> solver_setter SOLVERS (Str n) self)"
    unfolding set_default_solver_def by (rule try_solvers_first)
next
  show "fst (set_default_solver SOLVERS self) = Inr ()"
    unfolding set_default_solver_def try_solvers_outcome by simp
next
  show "(\<forall>p \<in> set pre. p \<notin> fst ` set SOLVERS) \<and> n \<in> fst ` set SOLVERS \<longrightarrow>
        try_solvers SOLVERS (pre @ n # post) self = solver_setter SOLVERS (Str n) self"
  proof
    assume a: "(\<forall>p \<in> set pre. p \<notin> fst ` set SOLVERS) \<and> n \<in> fst ` set SOLVERS"
    then have "find (\<lambda>n. n \<in> fst ` set SOLVERS) (pre @ n # post) = Some n"
      by (intro find_after_misses) auto
    then show "try_solvers SOLVERS (pre @ n # post) self = solver_setter SOLVERS (Str n) self"
      by (simp add: try_solvers_first)
  qed
next
  show "(\<forall>p \<in> set names. p \<notin> fst ` set SOLVERS) \<longrightarrow>
        try_solvers SOLVERS names self = (Inr (), self)"
  proof
    assume "\<forall>p \<in> set names. p \<notin> fst ` set SOLVERS"
    then have "find (\<lambda>n. n \<in> fst ` set SOLVERS) names = None"
      by (simp add: find_None_iff)
    then show "try_solvers SOLVERS names self = (Inr (), self)"
      by (simp add: try_solvers_first)
  qed
next
  show "fst (fst (init SOLVERS cpu_count)) = Inr ()"
    unfolding init_result by simp
next
  show "solver_getter (snd (fst (init SOLVERS cpu_count))) =
       (if ''gurobi'' \<in> fst ` set SOLVERS then map_of SOLVERS ''gurobi''
        else if ''cplex'' \<in> fst ` set SOLVERS then map_of SOLVERS ''cplex''
        else if ''glpk'' \<in> fst ` set SOLVERS then map_of SOLVERS ''glpk''
        else None)"
    unfolding init_result by (simp add: solver_getter_def)
qed

theorem default_solver_priority_witness:
  "solver_getter (snd (set_default_solver
       [(''glpk'', PyObj 1 True True ''glpk_interface''),
        (''cplex'', PyObj 2 True True ''cplex_interface'')]
       \<lparr>private_solver = None, tolerance = 1 / 10 ^ 7, lower_bound = Some (- 1000),
        upper_bound = Some 1000, processes = None\<rparr>))
     = Some (PyObj 2 True True ''cplex_interface'')
   \<and> solver_getter (snd (fst (init
       [(''glpk'', PyObj 1 True True ''glpk_interface''),
        (''cplex'', PyObj 2 True True ''cplex_interface'')] (Some 4))))
     = Some (PyObj 2 True True ''cplex_interface'')
   \<and> solver_getter (snd (fst (init [(''scipy'', PyObj 3 True True ''scipy_interface'')] (Some 4))))
     = None
   \<and> fst (fst (init [(''scipy'', PyObj 3 True True ''scipy_interface'')] (Some 4))) = Inr ()"
  using default_solver_priority [of
      "[(''glpk'', PyObj 1 True True ''glpk_interface''),
        (''cplex'', PyObj 2 True True ''cplex_interface'')]"
      "\<lparr>private_solver = None, tolerance = 1 / 10 ^ 7, lower_bound = Some (- 1000),
        upper_bound = Some 1000, processes = None\<rparr>"
      "[''gurobi'']" "''cplex''" "[''glpk'']" "[''gurobi'']" "Some 4"]
    default_solver_priority [of "[(''scipy'', PyObj 3 True True ''scipy_interface'')]"
      "\<lparr>private_solver = None, tolerance = 1 / 10 ^ 7, lower_bound = Some (- 1000),
        upper_bound = Some 1000, processes = None\<rparr>"
      "[''gurobi'', ''cplex'']" "''scipy''" "[]" "[''gurobi'', ''cplex'', ''glpk'']" "Some 4"]
  by (simp add: solver_setter_def solver_getter_def)

section \<open>The invariant on the bounds\<close>

lemma bounds_ordered_iff:
  "bounds_ordered self \<longleftrightarrow> (\<forall>lo hi. lower_bound self = Some lo \<longrightarrow> upper_bound self = Some hi \<longrightarrow> lo \<le> hi)"
  by (auto simp: bounds_ordered_def split: option.splits)

lemma bounds_ordered_init: "bounds_ordered (snd (fst (init SOLVERS cpu_count)))"
  unfolding init_result by (simp add: bounds_ordered_def)

lemma bounds_setter_keeps_ordered:
  "bounds_ordered self \<Longrightarrow> bounds_ordered (snd (bounds_setter bounds self))"
proof (cases "bounds_assertion bounds")
  case (Inl e)
  assume "bounds_ordered self"
  with Inl show ?thesis by (simp add: bounds_setter_def)
next
  case (Inr u)
  then have "\<forall>lo hi. fst bounds = Some lo \<longrightarrow> snd bounds = Some hi \<longrightarrow> lo \<le> hi"
    by (cases bounds) (auto simp: bounds_assertion_def split: option.splits if_splits)
  with Inr show ?thesis
    by (simp add: bounds_setter_def bounds_ordered_iff)
qed

lemma solver_setter_bounds:
  "lower_bound (snd (solver_setter SOLVERS v self)) = lower_bound self
   \<and> upper_bound (snd (solver_setter SOLVERS v self)) = upper_bound self"
  by (simp add: solver_setter_def split: pyvalue.splits option.splits)

lemma set_default_solver_bounds:
  "lower_bound (snd (set_default_solver SOLVERS self)) = lower_bound self
   \<and> upper_bound (snd (set_default_solver SOLVERS self)) = upper_bound self"
  unfolding set_default_solver_def try_solvers_outcome
  by (simp split: option.splits)

lemma set_default_processes_bounds:
  "lower_bound (fst (set_default_processes cpu_count self)) = lower_bound self
   \<and> upper_bound (fst (set_default_processes cpu_count self)) = upper_bound self"
  unfolding set_default_processes_result by simp

lemma run_call_bounds:
  "(\<forall>b. c \<noteq> Set_bounds b) \<Longrightarrow> (\<forall>n. c \<noteq> Call_init n) \<Longrightarrow>
     lower_bound (run_call SOLVERS c self) = lower_bound self
     \<and> upper_bound (run_call SOLVERS c self) = upper_bound self"
  by (cases c)
     (simp_all add: solver_setter_bounds set_default_solver_bounds set_default_processes_bounds)

lemma run_call_keeps_ordered:
  "bounds_ordered self \<Longrightarrow> bounds_ordered (run_call SOLVERS c self)"
proof (cases c)
  case (Call_init n)
  then show ?thesis by (simp add: bounds_ordered_init)
next
  case (Set_bounds b)
  assume "bounds_ordered self"
  with Set_bounds show ?thesis by (simp add: bounds_setter_keeps_ordered)
next
  case Call_set_default_solver
  assume "bounds_ordered self"
  with Call_set_default_solver show ?thesis
    by (simp add: bounds_ordered_iff set_default_solver_bounds)
next
  case (Call_set_default_processes n)
  assume "bounds_ordered self"
  with Call_set_default_processes show ?thesis
    by (simp add: bounds_ordered_iff set_default_processes_bounds)
next
  case (Set_solver v)
  assume "bounds_ordered self"
  with Set_solver show ?thesis
    by (simp add: bounds_ordered_iff solver_setter_bounds)
qed simp_all

lemma run_calls_keep_ordered:
  "bounds_ordered self \<Longrightarrow> bounds_ordered (foldl (\<lambda>s c. run_call SOLVERS c s) self cs)"
  by (induction cs arbitrary: self) (simp_all add: run_call_keeps_ordered)

text \<open>
  C8, as the code has it. The invariant (whenever \<^verbatim>\<open>lower_bound\<close> and \<^verbatim>\<open>upper_bound\<close> are both
  not \<^verbatim>\<open>None\<close>, \<^verbatim>\<open>lower_bound <= upper_bound\<close>) is established by construction and preserved by
  every method and property of the class, hence by every sequence of such calls on a
  constructed object. Among them only the \<^verbatim>\<open>bounds\<close> setter (and \<^verbatim>\<open>__init__\<close>, through it)
  writes the two bounds, and the setter raises instead of storing a pair that violates
  the invariant.
\<close>

theorem bounds_invariant_of_methods:
  "bounds_ordered (snd (fst (init SOLVERS cpu_count)))
   \<and> (bounds_ordered self \<longrightarrow> bounds_ordered (run_call SOLVERS c self))
   \<and> bounds_ordered (foldl (\<lambda>s c. run_call SOLVERS c s) (snd (fst (init SOLVERS cpu_count))) cs)
   \<and> ((\<forall>b. c \<noteq> Set_bounds b) \<and> (\<forall>n. c \<noteq> Call_init n) \<longrightarrow>
        bounds_getter (run_call SOLVERS c self) = bounds_getter self)
   \<and> (hi < lo \<longrightarrow> bounds_setter (Some lo, Some hi) self = (Inl AssertionError, self))"
proof (intro conjI)
  show "bounds_ordered (snd (fst (init SOLVERS cpu_count)))"
    by (rule bounds_ordered_init)
next
  show "bounds_ordered self \<longrightarrow> bounds_ordered (run_call SOLVERS c self)"
    by (simp add: run_call_keeps_ordered)
next
  show "bounds_ordered (foldl (\<lambda>s c. run_call SOLVERS c s) (snd (fst (init SOLVERS cpu_count))) cs)"
    by (rule run_calls_keep_ordered [OF bounds_ordered_init])
next
  show "(\<forall>b. c \<noteq> Set_bounds b) \<and> (\<forall>n. c \<noteq> Call_init n) \<longrightarrow>
        bounds_getter (run_call SOLVERS c self) = bounds_getter self"
    using run_call_bounds [of c SOLVERS self] by (simp add: bounds_getter_def)
next
  show "hi < lo \<longrightarrow> bounds_setter (Some lo, Some hi) self = (Inl AssertionError, self)"
    by (simp add: bounds_setter_def bounds_assertion_def)
qed

theorem bounds_invariant_of_methods_witness:
  "bounds_ordered (run_call [(''glpk'', PyObj 1 True True ''glpk_interface'')]
       (Set_bounds (Some 0, Some 10))
       \<lparr>private_solver = None, tolerance = 1 / 10 ^ 7, lower_bound = Some (- 1000),
        upper_bound = Some 1000, processes = Some 3\<rparr>)
   \<and> bounds_ordered (foldl (\<lambda>s c. run_call [(''glpk'', PyObj 1 True True ''glpk_interface'')] c s)
       (snd (fst (init [(''glpk'', PyObj 1 True True ''glpk_interface'')] (Some 4))))
       [Set_bounds (Some 5, Some 1), Set_solver (Str ''glpk''), Set_bounds (None, Some (- 2000))])
   \<and> bounds_getter (run_call [(''glpk'', PyObj 1 True True ''glpk_interface'')]
       (Set_solver (Str ''cplex''))
       \<lparr>private_solver = None, tolerance = 1 / 10 ^ 7, lower_bound = Some (- 1000),
        upper_bound = Some 1000, processes = Some 3\<rparr>) = (Some (- 1000), Some 1000)
   \<and> bounds_setter (Some 5, Some 1)
       \<lparr>private_solver = None, tolerance = 1 / 10 ^ 7, lower_bound = Some (- 1000),
        upper_bound = Some 1000, processes = Some 3\<rparr>
     = (Inl AssertionError,
        \<lparr>private_solver = None, tolerance = 1 / 10 ^ 7, lower_bound = Some (- 1000),
         upper_bound = Some 1000, processes = Some 3\<rparr>)"
  using bounds_invariant_of_methods [of "[(''glpk'', PyObj 1 True True ''glpk_interface'')]"
      "Some 4"
      "\<lparr>private_solver = None, tolerance = 1 / 10 ^ 7, lower_bound = Some (- 1000),
        upper_bound = Some 1000, processes = Some 3\<rparr>"
      "Set_bounds (Some 0, Some 10)"
      "[Set_bounds (Some 5, Some 1), Set_solver (Str ''glpk''), Set_bounds (None, Some (- 2000))]"
      1 5]
    bounds_invariant_of_methods [of "[(''glpk'', PyObj 1 True True ''glpk_interface'')]"
      "Some 4"
      "\<lparr>private_solver = None, tolerance = 1 / 10 ^ 7, lower_bound = Some (- 1000),
        upper_bound = Some 1000, processes = Some 3\<rparr>"
      "Set_solver (Str ''cplex'')" "[]" 1 5]
  by (simp add: bounds_ordered_def bounds_getter_def)

text \<open>
  C8 as the specification words it covers every operation on the object, and
  an assignment to the attribute \<^verbatim>\<open>lower_bound\<close> is one: on a freshly constructed object
  (bounds \<open>(-1000, 1000)\<close>), \<^verbatim>\<open>config.lower_bound = 2000.0\<close> is stored unchecked and leaves
  the lower bound above the upper one.
\<close>

theorem bounds_invariant_counterexample:
  "bounds_ordered (snd (fst (init [(''glpk'', PyObj 1 True True ''glpk_interface'')] (Some 4))))
   \<and> \<not> bounds_ordered
         (run_operation [(''glpk'', PyObj 1 True True ''glpk_interface'')]
            (Attribute (Assign_lower_bound (Some 2000)))
            (snd (fst (init [(''glpk'', PyObj 1 True True ''glpk_interface'')] (Some 4)))))
   \<and> bounds_getter
         (run_operation [(''glpk'', PyObj 1 True True ''glpk_interface'')]
            (Attribute (Assign_lower_bound (Some 2000)))
            (snd (fst (init [(''glpk'', PyObj 1 True True ''glpk_interface'')] (Some 4)))))
       = (Some 2000, Some 1000)"
  unfolding init_result by (simp add: bounds_ordered_def bounds_getter_def)

section \<open>The singleton\<close>

lemma Configuration_call_first:
  "instance_cache p = None \<Longrightarrow>
     Configuration_call SOLVERS cpu_count p =
       (Inr (length (heap p)),
        p\<lparr>heap := heap p @ [snd (fst (init SOLVERS cpu_count))],
          instance_cache := Some (length (heap p)),
          logged := logged p @ snd (init SOLVERS cpu_count)\<rparr>)"
  unfolding Configuration_call_def init_result by simp

lemma Configuration_call_cached:
  "instance_cache p = Some ref \<Longrightarrow> Configuration_call SOLVERS cpu_count p = (Inr ref, p)"
  by (simp add: Configuration_call_def)

lemma Configuration_call_caches:
  assumes "cache_valid p"
  shows "\<exists>ref. fst (Configuration_call SOLVERS cpu_count p) = Inr ref
           \<and> instance_cache (snd (Configuration_call SOLVERS cpu_count p)) = Some ref
           \<and> ref < length (heap (snd (Configuration_call SOLVERS cpu_count p)))"
proof (cases "instance_cache p")
  case None
  then show ?thesis by (simp add: Configuration_call_first)
next
  case (Some ref)
  with assms have "ref < length (heap p)" by (simp add: cache_valid_def)
  with Some show ?thesis by (simp add: Configuration_call_cached)
qed

lemma run_via_cache:
  "instance_cache (run_via SOLVERS ref opn p) = instance_cache p
   \<and> length (heap (run_via SOLVERS ref opn p)) = length (heap p)"
  by (simp add: run_via_def)

lemma run_all_via_cache:
  "instance_cache (run_all_via SOLVERS ops p) = instance_cache p
   \<and> length (heap (run_all_via SOLVERS ops p)) = length (heap p)"
proof (induction ops arbitrary: p)
  case Nil
  show ?case by simp
next
  case (Cons x ops)
  obtain ref opn where x: "x = (ref, opn)" by (cases x)
  show ?case using Cons.IH [of "run_via SOLVERS ref opn p"]
    by (simp add: x run_via_cache)
qed

lemma deref_run_via:
  "ref < length (heap p) \<Longrightarrow>
     deref (run_via SOLVERS ref opn p) ref = run_operation SOLVERS opn (deref p ref)"
  by (simp add: run_via_def deref_def)

text \<open>
  C9. In one process, any two calls \<^verbatim>\<open>Configuration()\<close> return the same reference, whatever
  is done to configuration objects between them, and the second call allocates
  nothing. Hence an operation carried out through the reference of the first call is
  seen through the reference of the second: reading the object there gives the state
  that the operation left.
\<close>

theorem singleton_same_instance:
  assumes "cache_valid p"
  shows "\<exists>ref. fst (Configuration_call SOLVERS cpu_count p) = Inr ref
           \<and> ref < length (heap (snd (Configuration_call SOLVERS cpu_count p)))
           \<and> Configuration_call SOLVERS cpu_count'
                 (run_all_via SOLVERS ops (snd (Configuration_call SOLVERS cpu_count p)))
               = (Inr ref, run_all_via SOLVERS ops (snd (Configuration_call SOLVERS cpu_count p)))
           \<and> deref (run_via SOLVERS ref opn
                      (run_all_via SOLVERS ops (snd (Configuration_call SOLVERS cpu_count p)))) ref
               = run_operation SOLVERS opn
                   (deref (run_all_via SOLVERS ops (snd (Configuration_call SOLVERS cpu_count p))) ref)"
proof -
  let ?p1 = "snd (Configuration_call SOLVERS cpu_count p)"
  let ?q = "run_all_via SOLVERS ops ?p1"
  from Configuration_call_caches [OF assms] obtain ref
    where r: "fst (Configuration_call SOLVERS cpu_count p) = Inr ref"
      and c: "instance_cache ?p1 = Some ref"
      and l: "ref < length (heap ?p1)"
    by blast
  from c have cq: "instance_cache ?q = Some ref"
    by (simp add: run_all_via_cache)
  from l have lq: "ref < length (heap ?q)"
    by (simp add: run_all_via_cache)
  have second: "Configuration_call SOLVERS cpu_count' ?q = (Inr ref, ?q)"
    using cq by (rule Configuration_call_cached)
  have seen: "deref (run_via SOLVERS ref opn ?q) ref = run_operation SOLVERS opn (deref ?q ref)"
    using lq by (rule deref_run_via)
  from r l second seen show ?thesis by blast
qed

theorem singleton_same_instance_witness:
  "fst (Configuration_call [(''glpk'', PyObj 1 True True ''glpk_interface'')] (Some 4) new_process)
     = Inr 0
   \<and> fst (Configuration_call [(''glpk'', PyObj 1 True True ''glpk_interface'')] None
           (run_all_via [(''glpk'', PyObj 1 True True ''glpk_interface'')]
              [(0, Method (Set_bounds (Some 0, Some 10)))]
              (snd (Configuration_call [(''glpk'', PyObj 1 True True ''glpk_interface'')]
                      (Some 4) new_process))))
     = Inr 0
   \<and> bounds_getter (deref (run_via [(''glpk'', PyObj 1 True True ''glpk_interface'')] 0
           (Attribute (Assign_upper_bound (Some 50)))
           (run_all_via [(''glpk'', PyObj 1 True True ''glpk_interface'')]
              [(0, Method (Set_bounds (Some 0, Some 10)))]
              (snd (Configuration_call [(''glpk'', PyObj 1 True True ''glpk_interface'')]
                      (Some 4) new_process)))) 0)
     = (Some 0, Some 50)"
proof -
  have v: "cache_valid new_process"
    by (simp add: cache_valid_def new_process_def)
  have first: "Configuration_call [(''glpk'', PyObj 1 True True ''glpk_interface'')] (Some 4) new_process
      = (Inr 0, \<lparr>heap = [snd (fst (init [(''glpk'', PyObj 1 True True ''glpk_interface'')] (Some 4)))],
                 instance_cache = Some 0, logged = []\<rparr>)"
    by (simp add: Configuration_call_first new_process_def init_result)
  show ?thesis
    using singleton_same_instance [OF v, of "[(''glpk'', PyObj 1 True True ''glpk_interface'')]"
        "Some 4" None "[(0, Method (Set_bounds (Some 0, Some 10)))]"
        "Attribute (Assign_upper_bound (Some 50))"]
    unfolding first
    by (simp add: run_via_def deref_def init_result bounds_setter_def bounds_assertion_def
          bounds_getter_def)
qed

end
